theory Spec2Isabelle
  imports Main "HOL-Library.Char_ord" "HOL-Library.List_Lexorder"
begin

section \<open>Part names: \<open>Data._increment_char\<close> and \<open>Data._increment_str\<close>\<close>

text \<open>
  Python strings are modelled as \<^typ>\<open>string\<close>; \<open>ord\<close> is \<^const>\<open>of_char\<close> and
  \<open>chr\<close> is \<^const>\<open>char_of\<close>. Characters of the model are the code points below 256
  (at code point 255 \<^const>\<open>char_of\<close> wraps where Python's \<open>chr\<close> goes on to 256);
  string comparison is the lexicographic order on code points, which is Python's.

  \<^verbatim>\<open>return chr(ord(c) + 1) if c != 'z' else 'a'\<close>
\<close>

definition increment_char :: "char \<Rightarrow> char" where
  "increment_char c = (if c \<noteq> CHR ''z'' then char_of (of_char c + (1::nat)) else CHR ''a'')"

text \<open>\<open>s.rstrip(chars)\<close>: drop every trailing character that occurs in \<open>chars\<close>.\<close>

definition rstrip :: "string \<Rightarrow> string \<Rightarrow> string" where
  "rstrip s chars = rev (dropWhile (\<lambda>c. c \<in> set chars) (rev s))"

text \<open>
  \<^verbatim>\<open>
  lpart = s.rstrip('z')
  num_replacements = len(s) - len(lpart)
  new_s = lpart[:-1] + self._increment_char(lpart[-1]) if lpart else 'a'
  new_s += 'a' * num_replacements
  return new_s
  \<close>
  The conditional expression binds weaker than \<open>+\<close>: for an empty \<open>lpart\<close> the whole
  of \<open>new_s\<close> is \<open>'a'\<close>, and \<open>lpart[-1]\<close> is read only of a non-empty \<open>lpart\<close>.
\<close>

definition increment_str :: "string \<Rightarrow> string" where
  "increment_str s =
     (let lpart = rstrip s ''z'';
          num_replacements = length s - length lpart;
          new_s = (if lpart \<noteq> [] then butlast lpart @ [increment_char (last lpart)] else ''a'')
      in new_s @ replicate num_replacements CHR ''a'')"


section \<open>Values, paths and the hierarchy\<close>

text \<open>
  A parsed JSON value, which is also what the client holds in its variables: Python's
  \<open>None\<close> and JSON's \<open>null\<close> are the one value \<open>JNull\<close>. An oid is such a value (a
  number or a string, as the store assigns it); so is an object policy, which the client
  passes through. A JSON object the client reads by key (the reply of \<open>/props\<close>, a
  metadata record) is a map from keys to values.
\<close>

datatype jval = JNull | JBool bool | JNum nat | JStr string | JObj "(string \<times> jval) list"

type_synonym oid = jval

type_synonym dict = "string \<rightharpoonup> jval"

text \<open>Python's truth value of an object, as \<open>if oid:\<close> and \<open>if not oid:\<close> test it.\<close>

fun truthy :: "jval \<Rightarrow> bool" where
  "truthy JNull = False"
| "truthy (JBool b) = b"
| "truthy (JNum n) = (n \<noteq> 0)"
| "truthy (JStr s) = (s \<noteq> [])"
| "truthy (JObj kvs) = (kvs \<noteq> [])"

text \<open>\<open>s.split(sep)\<close> for a one-character separator; the result is never empty.\<close>

fun split_on :: "char \<Rightarrow> string \<Rightarrow> string list" where
  "split_on sep [] = [[]]"
| "split_on sep (c # cs) =
     (if c = sep then [] # split_on sep cs
      else (case split_on sep cs of w # ws \<Rightarrow> (c # w) # ws | [] \<Rightarrow> [[c]]))"

text \<open>\<open>sep.join(xs)\<close>.\<close>

fun join :: "string \<Rightarrow> string list \<Rightarrow> string" where
  "join sep [] = []"
| "join sep [x] = x"
| "join sep (x # y # ys) = x @ sep @ join sep (y # ys)"

text \<open>
  \<open>pathlib.Path\<close> on POSIX: a root (\<open>//\<close> for exactly two leading slashes, \<open>/\<close> for
  any other number of them, empty for a relative path) and the components, with empty
  ones and \<open>.\<close> dropped. \<open>str\<close> of the path without root and components is \<open>.\<close>; the
  parent of a path without components is the path itself, and its name is empty.
\<close>

type_synonym path = "string \<times> string list"

definition Path :: "string \<Rightarrow> path" where
  "Path s =
     (if take 2 s = ''//'' \<and> take 3 s \<noteq> ''///'' then ''//''
      else if take 1 s = ''/'' then ''/'' else [],
      filter (\<lambda>x. x \<noteq> [] \<and> x \<noteq> ''.'') (split_on CHR ''/'' s))"

definition path_str :: "path \<Rightarrow> string" where
  "path_str p = (if fst p = [] \<and> snd p = [] then ''.'' else fst p @ join ''/'' (snd p))"

definition path_parent :: "path \<Rightarrow> path" where
  "path_parent p = (if snd p = [] then p else (fst p, butlast (snd p)))"

definition path_name :: "path \<Rightarrow> string" where
  "path_name p = (if snd p = [] then [] else last (snd p))"

text \<open>
  A key of the dictionary \<open>self.hierarchy\<close>: a \<open>str\<close>, or a \<open>Path\<close> object, given by
  its \<open>str\<close>. A \<open>Path\<close> is never equal to a \<open>str\<close>, so the two are different keys also
  when they spell the same path.
\<close>

datatype key = StrKey string | PathKey string

section \<open>The store and the libraries, as the client sees them\<close>

text \<open>
  One entry of the reply of \<open>GET /list/{oid}/\<close>: the name, the oid, and the value
  under \<open>isfile\<close> when the entry has that key (a directory has none).
\<close>

record entry =
  e_name :: string
  e_oid :: oid
  e_isfile :: "jval option"

text \<open>
  The exceptions that leave the modelled methods. A request that fails, or whose reply
  is not the JSON the client reads, is \<open>TransportError\<close>, raised by the request.
\<close>

datatype error = KeyError string | TypeError | IndexError | JSONDecodeError | TransportError

text \<open>
  What the client does not contain is a parameter: the store, of any type \<open>'r\<close>, behind
  its three endpoints (\<open>None\<close>: the request fails), and the library functions
  \<open>mimetypes.guess_type\<close>, \<open>json.loads\<close> (\<open>None\<close>: it raises \<open>JSONDecodeError\<close>) and
  \<open>json.dumps\<close>. The reply of \<open>POST /write\<close> is \<open>r.ok\<close> and the oids of the records of
  \<open>r.json()\<close>, with the store after the write.
\<close>

record 'r env =
  list_request :: "'r \<Rightarrow> oid \<Rightarrow> entry list option"
  props_request :: "'r \<Rightarrow> oid \<Rightarrow> dict option"
  write_request :: "'r \<Rightarrow> dict \<Rightarrow> ((bool \<times> oid list) \<times> 'r) option"
  guess_type :: "string \<Rightarrow> string option \<times> string option"
  json_loads :: "string \<Rightarrow> jval option"
  json_dumps :: "jval \<Rightarrow> string"

text \<open>The requests the client has sent, oldest first, are kept with its state.\<close>

datatype request = Get_list oid | Get_props oid | Post_write dict

record 'r state =
  hierarchy :: "key \<rightharpoonup> oid"
  remote :: 'r
  requests :: "request list"

text \<open>
  A call returns a value with the state, or raises, or does not return: the recursion
  of \<open>populate_hierarchy\<close> follows the store's listings and that of
  \<open>make_directory_tree\<close> the parents of the path, and neither is bounded by the code.
  Each takes the number of nested calls it may still make; \<open>None\<close> is the call that
  needs more (in Python, one ended by \<open>RecursionError\<close>).
\<close>

type_synonym ('a, 'r) result = "(error + 'a \<times> 'r state) option"

definition bind :: "(error + 'a) option \<Rightarrow> ('a \<Rightarrow> (error + 'b) option) \<Rightarrow> (error + 'b) option" where
  "bind m f = (case m of None \<Rightarrow> None | Some (Inl e) \<Rightarrow> Some (Inl e) | Some (Inr x) \<Rightarrow> f x)"

definition get_list :: "'r env \<Rightarrow> oid \<Rightarrow> 'r state \<Rightarrow> (entry list, 'r) result" where
  "get_list E oid s =
     (let s1 = s\<lparr>requests := requests s @ [Get_list oid]\<rparr>
      in case list_request E (remote s) oid of
           None \<Rightarrow> Some (Inl TransportError)
         | Some js \<Rightarrow> Some (Inr (js, s1)))"

definition get_props :: "'r env \<Rightarrow> oid \<Rightarrow> 'r state \<Rightarrow> (dict, 'r) result" where
  "get_props E oid s =
     (let s1 = s\<lparr>requests := requests s @ [Get_props oid]\<rparr>
      in case props_request E (remote s) oid of
           None \<Rightarrow> Some (Inl TransportError)
         | Some d \<Rightarrow> Some (Inr (d, s1)))"

definition post_write :: "'r env \<Rightarrow> dict \<Rightarrow> 'r state \<Rightarrow> (bool \<times> oid list, 'r) result" where
  "post_write E body s =
     (case write_request E (remote s) body of
        None \<Rightarrow> Some (Inl TransportError)
      | Some (reply, r') \<Rightarrow>
          Some (Inr (reply, s\<lparr>remote := r', requests := requests s @ [Post_write body]\<rparr>)))"

text \<open>\<open>d[k]\<close> of a dictionary read from a reply.\<close>

definition item :: "dict \<Rightarrow> string \<Rightarrow> error + jval" where
  "item d k = (case d k of None \<Rightarrow> Inl (KeyError k) | Some v \<Rightarrow> Inr v)"


section \<open>\<open>Data.populate_hierarchy\<close> and \<open>Data.find_file\<close>\<close>

text \<open>
  The body of the loop \<open>for j in r.json()\<close>, the recursive call being \<open>rec\<close>:
  \<^verbatim>\<open>
  filepath = "{}/{}".format(path, j['name'])
  self.hierarchy[filepath] = j['oid']
  try:
      _ = j['isfile']
      continue
  except KeyError:
      self.populate_hierarchy(filepath, j['oid'])
  \<close>
\<close>

fun for_entries ::
  "(string \<Rightarrow> oid \<Rightarrow> 'r state \<Rightarrow> (unit, 'r) result) \<Rightarrow> string \<Rightarrow> entry list \<Rightarrow> 'r state
     \<Rightarrow> (unit, 'r) result" where
  "for_entries rec path [] s = Some (Inr ((), s))"
| "for_entries rec path (j # js) s =
     (let filepath = path @ ''/'' @ e_name j;
          s1 = s\<lparr>hierarchy := (hierarchy s)(StrKey filepath \<mapsto> e_oid j)\<rparr>
      in case e_isfile j of
           Some _ \<Rightarrow> for_entries rec path js s1
         | None \<Rightarrow> bind (rec filepath (e_oid j) s1) (\<lambda>(_, s2). for_entries rec path js s2))"

text \<open>
  \<^verbatim>\<open>
  r = requests.get(self.base_url+"/list/{}/".format(oid), headers=self.headers)
  if path == '/':
      path = ''
  for j in r.json(): ...
  \<close>
\<close>

fun populate_hierarchy ::
  "'r env \<Rightarrow> nat \<Rightarrow> string \<Rightarrow> oid \<Rightarrow> 'r state \<Rightarrow> (unit, 'r) result" where
  "populate_hierarchy E 0 path oid s = None"
| "populate_hierarchy E (Suc n) path oid s =
     bind (get_list E oid s) (\<lambda>(js, s1).
       for_entries (populate_hierarchy E n) (if path = ''/'' then [] else path) js s1)"

text \<open>
  \<^verbatim>\<open>
  try:
      oid = self.hierarchy[filename]
      return oid
  except KeyError:
      self.populate_hierarchy("/", 1)
  try:
      oid = self.hierarchy[filename]
      return oid
  except KeyError:
      return None
  \<close>
  Every caller passes a \<open>str\<close>.
\<close>

definition find_file :: "'r env \<Rightarrow> nat \<Rightarrow> string \<Rightarrow> 'r state \<Rightarrow> (oid, 'r) result" where
  "find_file E n filename s =
     (case hierarchy s (StrKey filename) of
        Some oid \<Rightarrow> Some (Inr (oid, s))
      | None \<Rightarrow>
          bind (populate_hierarchy E n ''/'' (JNum 1) s) (\<lambda>(_, s1).
            case hierarchy s1 (StrKey filename) of
              Some oid \<Rightarrow> Some (Inr (oid, s1))
            | None \<Rightarrow> Some (Inr (JNull, s1))))"

section \<open>\<open>Data.make_directory_tree\<close>\<close>

text \<open>
  The argument \<open>object_policy\<close>: absent (\<open>None\<close>), a \<open>str\<close> holding JSON, or an
  object already parsed. \<open>json.loads\<close> raises \<open>TypeError\<close> on what is not a \<open>str\<close>.
\<close>

datatype policy_arg = PolStr string | PolObj jval

fun truthy_policy :: "policy_arg option \<Rightarrow> bool" where
  "truthy_policy None = False"
| "truthy_policy (Some (PolStr t)) = (t \<noteq> [])"
| "truthy_policy (Some (PolObj j)) = truthy j"

fun loads :: "'r env \<Rightarrow> policy_arg option \<Rightarrow> error + jval" where
  "loads E (Some (PolStr t)) = (case json_loads E t of None \<Rightarrow> Inl JSONDecodeError | Some j \<Rightarrow> Inr j)"
| "loads E _ = Inl TypeError"

definition raise_or :: "error + 'a \<Rightarrow> ('a \<Rightarrow> (error + 'b) option) \<Rightarrow> (error + 'b) option" where
  "raise_or v f = (case v of Inl e \<Rightarrow> Some (Inl e) | Inr x \<Rightarrow> f x)"

text \<open>
  The part of \<open>make_directory_tree\<close> after the second \<open>find_file\<close>, \<open>oid\<close> being the
  parent's oid as that call returned it and \<open>security\<close> the keyword argument of that
  name, if given:
  \<^verbatim>\<open>
  r = requests.get(self.base_url+'/props/{}'.format(oid))
  if not object_policy:
      object_policy = json.dumps(r.json()['objectpolicy'])
  body = {"action": "U", "name": path.name, "parentoid": oid, "isFile": False,
          "objectpolicy": json.loads(object_policy)}
  if object_policy:
      body['objectpolicy'] = json.loads(object_policy)
  else:
      body['objectpolicy'] = r.json()['objectpolicy']
  try:
      if kwargs['security']:
          body['security'] = kwargs['security']
  except KeyError:
      r = requests.get(self.base_url + '/props/{}'.format(oid))
      body['security'] = r.json()['security']
  r = requests.post(self.base_url + "/write", files=files, headers=self.headers)
  ok = r.ok
  oid = r.json()[0]["oid"]
  if ok:
      self.hierarchy[path] = oid
  return oid
  \<close>
  Here \<open>path\<close> is the \<open>Path\<close> object the method made of its argument, and that object
  is the key written to the hierarchy.
\<close>

definition write_directory ::
  "'r env \<Rightarrow> path \<Rightarrow> oid \<Rightarrow> policy_arg option \<Rightarrow> string option \<Rightarrow> 'r state \<Rightarrow> (oid, 'r) result" where
  "write_directory E path oid object_policy security s =
     bind (get_props E oid s) (\<lambda>(props, s1).
     raise_or (if \<not> truthy_policy object_policy
               then (case item props ''objectpolicy'' of
                       Inl e \<Rightarrow> Inl e
                     | Inr p \<Rightarrow> Inr (Some (PolStr (json_dumps E p))))
               else Inr object_policy) (\<lambda>object_policy.
     raise_or (loads E object_policy) (\<lambda>parsed.
     raise_or (if truthy_policy object_policy then loads E object_policy
               else item props ''objectpolicy'') (\<lambda>policy.
     let body = [''action'' \<mapsto> JStr ''U'', ''name'' \<mapsto> JStr (path_name path),
                 ''parentoid'' \<mapsto> oid, ''isFile'' \<mapsto> JBool False,
                 ''objectpolicy'' \<mapsto> policy]
     in
     bind (case security of
             Some t \<Rightarrow> Some (Inr (if t \<noteq> [] then body(''security'' \<mapsto> JStr t) else body, s1))
           | None \<Rightarrow>
               bind (get_props E oid s1) (\<lambda>(props2, s2).
               raise_or (item props2 ''security'') (\<lambda>sec.
               Some (Inr (body(''security'' \<mapsto> sec), s2))))) (\<lambda>(body, s2).
     bind (post_write E body s2) (\<lambda>((ok, oids), s3).
     case oids of
       [] \<Rightarrow> Some (Inl IndexError)
     | new_oid # _ \<Rightarrow>
         Some (Inr (new_oid,
           if ok then s3\<lparr>hierarchy := (hierarchy s3)(PathKey (path_str path) \<mapsto> new_oid)\<rparr>
           else s3))))))))"

text \<open>
  \<^verbatim>\<open>
  path = Path(path)
  oid = self.find_file(str(path.parent))
  if not oid:
      self.make_directory_tree(str(path.parent), object_policy=object_policy, **kwargs)
  oid = self.find_file(str(path.parent))
  \<close>
  and then the part above. What the recursive call returns is dropped.
\<close>

fun make_directory_tree ::
  "'r env \<Rightarrow> nat \<Rightarrow> string \<Rightarrow> policy_arg option \<Rightarrow> string option \<Rightarrow> 'r state \<Rightarrow> (oid, 'r) result" where
  "make_directory_tree E 0 path0 object_policy security s = None"
| "make_directory_tree E (Suc n) path0 object_policy security s =
     (let path = Path path0; parent = path_str (path_parent path)
      in bind (find_file E n parent s) (\<lambda>(oid, s1).
         bind (if \<not> truthy oid
               then bind (make_directory_tree E n parent object_policy security s1)
                      (\<lambda>(_, s2). Some (Inr ((), s2)))
               else Some (Inr ((), s1))) (\<lambda>(_, s2).
         bind (find_file E n parent s2) (\<lambda>(oid, s3).
         write_directory E path oid object_policy security s3))))"


section \<open>\<open>Data.create_meta\<close>\<close>

text \<open>
  The keyword arguments the methods read. \<open>mimetype\<close> is what the caller gives:
  \<open>append_data\<close> gives the pair \<open>mimetypes.guess_type\<close> returned, another caller may
  give a \<open>str\<close>; the method takes \<open>mimetype[0]\<close> of either.
\<close>

datatype mime_arg = MimeGuess "string option \<times> string option" | MimeStr string

record kwargs =
  kw_security :: "string option"
  kw_mimetype :: "mime_arg option"
  kw_local_filename :: "string option"

fun first_of :: "mime_arg \<Rightarrow> error + jval" where
  "first_of (MimeGuess (Some t, _)) = Inr (JStr t)"
| "first_of (MimeGuess (None, _)) = Inr JNull"
| "first_of (MimeStr (c # _)) = Inr (JStr [c])"
| "first_of (MimeStr []) = Inl IndexError"

text \<open>
  The branch \<open>if oid:\<close> of \<open>create_meta\<close>, the file being found:
  \<^verbatim>\<open>
  r = requests.get(self.base_url+'/props/{}'.format(oid))
  meta = r.json()
  meta['action'] = "C"
  if object_policy:
      if isinstance(object_policy, str):
          meta['objectpolicy'] = json.loads(object_policy)
      else:
          meta['objectpolicy'] = object_policy
  try:
      if kwargs['security']:
          meta['security'] = kwargs['security']
  except KeyError:
      pass
  \<close>
\<close>

definition meta_of_existing ::
  "'r env \<Rightarrow> oid \<Rightarrow> policy_arg option \<Rightarrow> kwargs \<Rightarrow> 'r state \<Rightarrow> (dict, 'r) result" where
  "meta_of_existing E oid object_policy kw s =
     bind (get_props E oid s) (\<lambda>(meta, s1).
     let meta = meta(''action'' \<mapsto> JStr ''C'')
     in raise_or (if truthy_policy object_policy
                  then (case object_policy of
                          Some (PolObj j) \<Rightarrow> Inr (meta(''objectpolicy'' \<mapsto> j))
                        | _ \<Rightarrow> (case loads E object_policy of
                                  Inl e \<Rightarrow> Inl e
                                | Inr j \<Rightarrow> Inr (meta(''objectpolicy'' \<mapsto> j))))
                  else Inr meta) (\<lambda>meta.
        Some (Inr (case kw_security kw of
                     Some t \<Rightarrow> if t \<noteq> [] then meta(''security'' \<mapsto> JStr t) else meta
                   | None \<Rightarrow> meta, s1))))"

text \<open>
  The branch \<open>else:\<close>, the file not being found:
  \<^verbatim>\<open>
  path = Path(data_filename)
  oid = self.find_file(str(path.parent))
  if not oid:
      oid = self.make_directory_tree(str(path.parent), object_policy=object_policy)
  if not object_policy:
      r = requests.get(self.base_url + '/props/{}'.format(oid))
      meta = r.json()
      object_policy = meta['objectpolicy']
  else:
      object_policy = json.loads(object_policy)
  meta = {"action": "C", "name": path.name, "parentoid": oid, "isFile": True,
          "objectpolicy": object_policy, "mimetype": mimetype[0]}
  try:
      if kwargs['security']:
          meta['security'] = kwargs['security']
  except KeyError:
      r = requests.get(self.base_url+'/props/{}'.format(oid), headers=self.headers)
      meta['security'] = r.json()['security']
  \<close>
\<close>

definition meta_of_new ::
  "'r env \<Rightarrow> nat \<Rightarrow> string \<Rightarrow> mime_arg \<Rightarrow> policy_arg option \<Rightarrow> kwargs \<Rightarrow> 'r state
     \<Rightarrow> (dict, 'r) result" where
  "meta_of_new E n data_filename mimetype object_policy kw s =
     (let path = Path data_filename; parent = path_str (path_parent path)
      in bind (find_file E n parent s) (\<lambda>(oid, s1).
         bind (if \<not> truthy oid then make_directory_tree E n parent object_policy None s1
               else Some (Inr (oid, s1))) (\<lambda>(oid, s2).
         bind (if \<not> truthy_policy object_policy
               then bind (get_props E oid s2) (\<lambda>(meta, s3).
                    raise_or (item meta ''objectpolicy'') (\<lambda>p. Some (Inr (p, s3))))
               else raise_or (loads E object_policy) (\<lambda>p. Some (Inr (p, s2)))) (\<lambda>(policy, s3).
         raise_or (first_of mimetype) (\<lambda>mt.
         let meta = [''action'' \<mapsto> JStr ''C'', ''name'' \<mapsto> JStr (path_name path),
                     ''parentoid'' \<mapsto> oid, ''isFile'' \<mapsto> JBool True,
                     ''objectpolicy'' \<mapsto> policy, ''mimetype'' \<mapsto> mt]
         in case kw_security kw of
              Some t \<Rightarrow> Some (Inr (if t \<noteq> [] then meta(''security'' \<mapsto> JStr t) else meta, s3))
            | None \<Rightarrow>
                bind (get_props E oid s3) (\<lambda>(props, s4).
                raise_or (item props ''security'') (\<lambda>sec.
                Some (Inr (meta(''security'' \<mapsto> sec), s4)))))))))"

text \<open>
  \<^verbatim>\<open>
  oid = self.find_file(data_filename)
  if "mimetype" in kwargs.keys():
      mimetype = kwargs["mimetype"]
  elif "local_filename" in kwargs.keys():
      mimetype = mimetypes.guess_type(kwargs["local_filename"])
  else:
      mimetype = mimetypes.guess_type(data_filename)
  if oid: ... else: ...
  return meta
  \<close>
\<close>

definition mimetype_for :: "'r env \<Rightarrow> string \<Rightarrow> kwargs \<Rightarrow> mime_arg" where
  "mimetype_for E data_filename kw =
     (case kw_mimetype kw of
        Some m \<Rightarrow> m
      | None \<Rightarrow> (case kw_local_filename kw of
                   Some f \<Rightarrow> MimeGuess (guess_type E f)
                 | None \<Rightarrow> MimeGuess (guess_type E data_filename)))"

definition create_meta ::
  "'r env \<Rightarrow> nat \<Rightarrow> string \<Rightarrow> policy_arg option \<Rightarrow> kwargs \<Rightarrow> 'r state \<Rightarrow> (dict, 'r) result" where
  "create_meta E n data_filename object_policy kw s =
     bind (find_file E n data_filename s) (\<lambda>(oid, s1).
     let mimetype = mimetype_for E data_filename kw
     in if truthy oid then meta_of_existing E oid object_policy kw s1
        else meta_of_new E n data_filename mimetype object_policy kw s1)"

section \<open>\<open>Data.get_part\<close>\<close>

text \<open>
  The names of the entries that have the key \<open>isfile\<close>, sorted, and the part after the
  last of them:
  \<^verbatim>\<open>
  names = [name['name'] for name in r.json() if 'isfile' in name.keys()]
  names.sort()
  if len(names) == 0:
      return "aaa"
  else:
      return self._increment_str(names[-1].split(".")[0])
  \<close>
\<close>

definition part_after :: "entry list \<Rightarrow> string" where
  "part_after js =
     (let names = sort (map e_name (filter (\<lambda>j. e_isfile j \<noteq> None) js))
      in if length names = 0 then ''aaa''
         else increment_str (case split_on CHR ''.'' (last names) of w # _ \<Rightarrow> w | [] \<Rightarrow> []))"

definition next_part :: "'r env \<Rightarrow> oid \<Rightarrow> 'r state \<Rightarrow> (string, 'r) result" where
  "next_part E oid s = bind (get_list E oid s) (\<lambda>(js, s1). Some (Inr (part_after js, s1)))"

text \<open>
  \<^verbatim>\<open>
  part = None
  if data_filename not in self.hierarchy.keys():
      oid = self.find_file(data_filename)
      if not oid:
          oid = self.make_directory_tree(data_filename, object_policy=object_policy)
          part = "aaa"
  else:
      oid = self.hierarchy[data_filename]
      r = requests.get(self.base_url+'/props/{}'.format(oid), headers=self.headers)
      try:
          if r.json()['isfile']:
              oid = r.json()['parentoid']
      except KeyError:
          pass
  if not part: ... (the listing, above)
  return part
  \<close>
  A reply with a true \<open>isfile\<close> and no \<open>parentoid\<close> raises the \<open>KeyError\<close> that the
  \<open>except\<close> swallows, and \<open>oid\<close> stays.
\<close>

definition get_part ::
  "'r env \<Rightarrow> nat \<Rightarrow> string \<Rightarrow> policy_arg option \<Rightarrow> 'r state \<Rightarrow> (string, 'r) result" where
  "get_part E n data_filename object_policy s =
     (case hierarchy s (StrKey data_filename) of
        None \<Rightarrow>
          bind (find_file E n data_filename s) (\<lambda>(oid, s1).
            if \<not> truthy oid
            then bind (make_directory_tree E n data_filename object_policy None s1)
                   (\<lambda>(oid, s2). Some (Inr (''aaa'', s2)))
            else next_part E oid s1)
      | Some oid \<Rightarrow>
          bind (get_props E oid s) (\<lambda>(props, s1).
            let oid = (case props ''isfile'' of
                         None \<Rightarrow> oid
                       | Some v \<Rightarrow>
                           if truthy v
                           then (case props ''parentoid'' of None \<Rightarrow> oid | Some p \<Rightarrow> p)
                           else oid)
            in next_part E oid s1))"


section \<open>The part name as the specification words it\<close>

text \<open>
  The specification of \<open>nextPart\<close> on a directory: keep the file-type children, sort
  their base names, the extension stripped, take the maximum, and return its successor;
  \<open>aaa\<close> when there is no file child. This definition follows those words, to be
  compared with \<^const>\<open>part_after\<close>, which follows the code.
\<close>

definition base_name :: "string \<Rightarrow> string" where
  "base_name x = (case split_on CHR ''.'' x of w # _ \<Rightarrow> w | [] \<Rightarrow> [])"

definition spec_part_after :: "entry list \<Rightarrow> string" where
  "spec_part_after js =
     (let names = sort (map (base_name \<circ> e_name) (filter (\<lambda>j. e_isfile j \<noteq> None) js))
      in if names = [] then ''aaa'' else increment_str (last names))"

section \<open>A store to run the client against\<close>

text \<open>
  A store with the interface the client uses, for the concrete runs: a list of nodes,
  the root being the node with oid \<open>1\<close>. \<open>/list\<close> gives the children of a node,
  \<open>/props\<close> its properties (with \<open>isfile\<close> for a file only), and \<open>/write\<close> creates the
  named child of \<open>parentoid\<close> under a fresh oid, or, the child being there, gives it
  the record's policy and security and answers with its oid. A request for an oid that
  is no node fails.
\<close>

record node =
  n_oid :: nat
  n_name :: string
  n_parent :: nat
  n_isfile :: bool
  n_policy :: jval
  n_security :: jval

type_synonym store = "node list"

definition store_list :: "store \<Rightarrow> oid \<Rightarrow> entry list option" where
  "store_list st oid =
     (case oid of
        JNum k \<Rightarrow>
          if k \<in> set (map n_oid st)
          then Some (map (\<lambda>nd. \<lparr>e_name = n_name nd, e_oid = JNum (n_oid nd),
                               e_isfile = (if n_isfile nd then Some (JBool True) else None)\<rparr>)
                      (filter (\<lambda>nd. n_parent nd = k) st))
          else None
      | _ \<Rightarrow> None)"

definition node_props :: "node \<Rightarrow> dict" where
  "node_props nd =
     (let d = [''name'' \<mapsto> JStr (n_name nd), ''parentoid'' \<mapsto> JNum (n_parent nd),
               ''objectpolicy'' \<mapsto> n_policy nd, ''security'' \<mapsto> n_security nd]
      in if n_isfile nd then d(''isfile'' \<mapsto> JBool True) else d)"

definition store_props :: "store \<Rightarrow> oid \<Rightarrow> dict option" where
  "store_props st oid =
     (case oid of
        JNum k \<Rightarrow> (case filter (\<lambda>nd. n_oid nd = k) st of nd # _ \<Rightarrow> Some (node_props nd) | [] \<Rightarrow> None)
      | _ \<Rightarrow> None)"

definition store_write :: "store \<Rightarrow> dict \<Rightarrow> ((bool \<times> oid list) \<times> store) option" where
  "store_write st body =
     (case (body ''name'', body ''parentoid'', body ''isFile'', body ''objectpolicy'', body ''security'') of
        (Some (JStr nm), Some (JNum p), Some (JBool f), Some pol, Some sec) \<Rightarrow>
          if p \<notin> set (map n_oid st) then None
          else (case filter (\<lambda>nd. n_parent nd = p \<and> n_name nd = nm) st of
                  nd # _ \<Rightarrow>
                    Some ((True, [JNum (n_oid nd)]),
                          map (\<lambda>x. if n_oid x = n_oid nd
                                    then x\<lparr>n_policy := pol, n_security := sec\<rparr> else x) st)
                | [] \<Rightarrow>
                    (let k = Suc (foldr max (map n_oid st) 0)
                     in Some ((True, [JNum k]),
                              st @ [\<lparr>n_oid = k, n_name = nm, n_parent = p, n_isfile = f,
                                     n_policy = pol, n_security = sec\<rparr>])))
      | _ \<Rightarrow> None)"

text \<open>
  The libraries, as far as the runs go. \<open>json.dumps\<close> prints a value as Python does
  (strings of printable ASCII characters). \<open>json.loads\<close> reads the literals and the
  decimal numerals; the policies of the runs are numerals, and the runs give it no other
  text. \<open>mimetypes.guess_type\<close> is given on names without an extension, for which it
  returns \<open>(None, None)\<close>, and on the extensions \<open>.txt\<close> and \<open>.json\<close>.
\<close>

function show_nat :: "nat \<Rightarrow> string" where
  "show_nat n = (if n < 10 then [char_of (48 + n)] else show_nat (n div 10) @ [char_of (48 + n mod 10)])"
  by pat_completeness auto
termination
  by (relation "measure id") auto

declare show_nat.simps [simp del]

definition read_nat :: "string \<Rightarrow> nat option" where
  "read_nat t =
     (if t \<noteq> [] \<and> list_all (\<lambda>c. CHR ''0'' \<le> c \<and> c \<le> CHR ''9'') t \<and> (take 1 t \<noteq> ''0'' \<or> t = ''0'')
      then Some (foldl (\<lambda>a c. 10 * a + (of_char c - 48)) 0 t) else None)"

definition run_loads :: "string \<Rightarrow> jval option" where
  "run_loads t =
     (if t = ''null'' then Some JNull
      else if t = ''true'' then Some (JBool True)
      else if t = ''false'' then Some (JBool False)
      else map_option JNum (read_nat t))"

definition quoted :: "string \<Rightarrow> string" where
  "quoted t =
     [CHR 0x22]
     @ concat (map (\<lambda>c. if c = CHR 0x22 \<or> c = CHR 0x5C then [CHR 0x5C, c] else [c]) t)
     @ [CHR 0x22]"

fun run_dumps :: "jval \<Rightarrow> string" where
  "run_dumps JNull = ''null''"
| "run_dumps (JBool b) = (if b then ''true'' else ''false'')"
| "run_dumps (JNum n) = show_nat n"
| "run_dumps (JStr t) = quoted t"
| "run_dumps (JObj kvs) =
     ''{'' @ join '', '' (map (\<lambda>kv. quoted (fst kv) @ '': '' @ run_dumps (snd kv)) kvs) @ ''}''"

definition run_guess_type :: "string \<Rightarrow> string option \<times> string option" where
  "run_guess_type f =
     (case rev (split_on CHR ''.'' (path_name (Path f))) of
        ext # _ # _ \<Rightarrow>
          (if ext = ''txt'' then Some ''text/plain''
           else if ext = ''json'' then Some ''application/json'' else None, None)
      | _ \<Rightarrow> (None, None))"

definition run_env :: "store env" where
  "run_env = \<lparr>list_request = store_list, props_request = store_props, write_request = store_write,
              guess_type = run_guess_type, json_loads = run_loads, json_dumps = run_dumps\<rparr>"

text \<open>A client that has sent nothing and holds an empty hierarchy, facing the store.\<close>

definition fresh :: "store \<Rightarrow> store state" where
  "fresh st = \<lparr>hierarchy = Map.empty, remote = st, requests = []\<rparr>"

text \<open>The root alone, with policy \<open>7\<close>: the empty tree.\<close>

definition root_node :: node where
  "root_node = \<lparr>n_oid = 1, n_name = [], n_parent = 0, n_isfile = False,
                n_policy = JNum 7, n_security = JStr ''open''\<rparr>"

definition empty_tree :: store where
  "empty_tree = [root_node]"


text \<open>
  What a run shows: the value returned or the exception, the state it ends in, the
  values a returned record has under given keys, a request as endpoint and oid (for a
  write, the name written), and the records written.
\<close>

definition outcome :: "('a, 'r) result \<Rightarrow> (error + 'a) option" where
  "outcome r = map_option (map_sum id fst) r"

definition final :: "('a, 'r) result \<Rightarrow> 'r state option" where
  "final r = (case r of Some (Inr (_, s)) \<Rightarrow> Some s | _ \<Rightarrow> None)"

definition record_fields :: "string list \<Rightarrow> (dict, 'r) result \<Rightarrow> (error + jval option list) option" where
  "record_fields ks r = map_option (map_sum id (\<lambda>(m, s). map m ks)) r"

fun request_line :: "request \<Rightarrow> string \<times> jval" where
  "request_line (Get_list oid) = (''list'', oid)"
| "request_line (Get_props oid) = (''props'', oid)"
| "request_line (Post_write body) = (''write'', case body ''name'' of Some v \<Rightarrow> v | None \<Rightarrow> JNull)"

fun writes :: "request list \<Rightarrow> dict list" where
  "writes [] = []"
| "writes (Post_write body # rs) = body # writes rs"
| "writes (_ # rs) = writes rs"

text \<open>
  The stores of the runs: a directory \<open>/a\<close>; the directories \<open>/a\<close>, \<open>/a/b\<close> and
  \<open>/a/b/c\<close>; a directory \<open>/d\<close> holding parts.
\<close>

definition dir_node :: "nat \<Rightarrow> string \<Rightarrow> nat \<Rightarrow> node" where
  "dir_node k nm p = \<lparr>n_oid = k, n_name = nm, n_parent = p, n_isfile = False,
                       n_policy = JNum 7, n_security = JStr ''open''\<rparr>"

definition file_node :: "nat \<Rightarrow> string \<Rightarrow> nat \<Rightarrow> node" where
  "file_node k nm p = \<lparr>n_oid = k, n_name = nm, n_parent = p, n_isfile = True,
                        n_policy = JNum 7, n_security = JStr ''open''\<rparr>"

definition tree_a :: store where
  "tree_a = [root_node, dir_node 2 ''a'' 1]"

definition tree_parts :: store where
  "tree_parts = [root_node, dir_node 2 ''d'' 1, file_node 3 ''aaa'' 2, file_node 4 ''aab'' 2]"

definition tree_dashed :: store where
  "tree_dashed = [root_node, dir_node 2 ''d'' 1, file_node 3 ''aaa.txt'' 2, file_node 4 ''aaa-x'' 2]"

text \<open>A client whose hierarchy holds what \<open>populate_hierarchy("/", 1)\<close> read of a store.\<close>

definition cached_a :: "store state" where
  "cached_a = \<lparr>hierarchy = [StrKey ''/a'' \<mapsto> JNum 2], remote = tree_a, requests = []\<rparr>"

definition cached_parts :: "store state" where
  "cached_parts = \<lparr>hierarchy = [StrKey ''/d'' \<mapsto> JNum 2, StrKey ''/d/aaa'' \<mapsto> JNum 3,
                                  StrKey ''/d/aab'' \<mapsto> JNum 4],
                    remote = tree_parts, requests = []\<rparr>"

definition cached_dashed :: "store state" where
  "cached_dashed = \<lparr>hierarchy = [StrKey ''/d'' \<mapsto> JNum 2, StrKey ''/d/aaa.txt'' \<mapsto> JNum 3,
                                   StrKey ''/d/aaa-x'' \<mapsto> JNum 4],
                     remote = tree_dashed, requests = []\<rparr>"

definition tree_abc :: store where
  "tree_abc = [root_node, dir_node 2 ''a'' 1, dir_node 3 ''b'' 2, dir_node 4 ''c'' 3]"

definition cached_abc :: "store state" where
  "cached_abc = \<lparr>hierarchy = [StrKey ''/a'' \<mapsto> JNum 2, StrKey ''/a/b'' \<mapsto> JNum 3,
                                StrKey ''/a/b/c'' \<mapsto> JNum 4],
                  remote = tree_abc, requests = []\<rparr>"

definition no_kwargs :: kwargs where
  "no_kwargs = \<lparr>kw_security = None, kw_mimetype = None, kw_local_filename = None\<rparr>"

section \<open>Properties of the part names\<close>

lemma rstrip_z_decomp:
  "s = rstrip s ''z'' @ replicate (length s - length (rstrip s ''z'')) CHR ''z''"
proof -
  let ?P = "\<lambda>c. c \<in> set ''z''"
  have tw: "takeWhile ?P xs = replicate (length (takeWhile ?P xs)) CHR ''z''" for xs
    by (induction xs) auto
  have "rev s = takeWhile ?P (rev s) @ dropWhile ?P (rev s)" by simp
  then have "s = rev (dropWhile ?P (rev s)) @ rev (takeWhile ?P (rev s))"
    by (metis rev_append rev_rev_ident)
  moreover have "length (takeWhile ?P (rev s)) = length s - length (rstrip s ''z'')"
    unfolding rstrip_def
    by (metis add_diff_cancel_right' length_append length_rev takeWhile_dropWhile_id)
  ultimately show ?thesis
    unfolding rstrip_def using tw [of "rev s"] by (metis rev_replicate)
qed

lemma rstrip_z_last: "rstrip s ''z'' \<noteq> [] \<Longrightarrow> last (rstrip s ''z'') \<noteq> CHR ''z''"
  unfolding rstrip_def using hd_dropWhile [of "\<lambda>c. c \<in> set ''z''" "rev s"]
  by (simp add: last_rev)

lemma rstrip_subset: "set (rstrip s cs) \<subseteq> set s"
  unfolding rstrip_def using set_dropWhileD by fastforce

lemma rstrip_z_Nil: "rstrip s ''z'' = [] \<Longrightarrow> s = replicate (length s) CHR ''z''"
  using rstrip_z_decomp [of s] by simp

lemma append_Cons_less: "(a::char) < b \<Longrightarrow> xs @ a # ys < xs @ b # zs"
  by (induction xs) auto

lemma increment_char_greater:
  "c \<noteq> CHR ''z'' \<Longrightarrow> CHR ''a'' \<le> c \<Longrightarrow> c \<le> CHR ''z'' \<Longrightarrow> c < increment_char c"
  by (simp add: increment_char_def less_char_def less_eq_char_def)

text \<open>
  A name of lowercase letters that are not all \<open>z\<close> keeps the letters before the last
  one that is not \<open>z\<close>, and that one grows: the name grows in the order of strings.
\<close>

lemma increment_str_less:
  assumes low: "\<forall>c\<in>set s. CHR ''a'' \<le> c \<and> c \<le> CHR ''z''"
    and nz: "rstrip s ''z'' \<noteq> []"
  shows "s < increment_str s"
proof -
  define lpart where "lpart = rstrip s ''z''"
  define k where "k = length s - length lpart"
  have "s = lpart @ replicate k CHR ''z''"
    using rstrip_z_decomp [of s] unfolding lpart_def k_def .
  moreover have "lpart = butlast lpart @ [last lpart]"
    using nz by (simp add: lpart_def)
  ultimately have s: "s = butlast lpart @ last lpart # replicate k CHR ''z''"
    by (metis append.assoc append_Cons append_Nil)
  have "last lpart \<in> set s"
    using nz rstrip_subset [of s "''z''"] last_in_set [of lpart] by (auto simp: lpart_def)
  then have "last lpart < increment_char (last lpart)"
    using low rstrip_z_last [OF nz] by (intro increment_char_greater) (auto simp: lpart_def)
  then have "butlast lpart @ last lpart # replicate k CHR ''z''
      < butlast lpart @ increment_char (last lpart) # replicate k CHR ''a''"
    by (rule append_Cons_less)
  moreover have "increment_str s = butlast lpart @ increment_char (last lpart) # replicate k CHR ''a''"
    using nz by (simp add: increment_str_def Let_def lpart_def k_def)
  ultimately show ?thesis using s by simp
qed

text \<open>
  Claim C3, as the code has it. \<open>_increment_str\<close> has no error to signal: a name made
  of \<open>z\<close> only has an empty \<open>lpart\<close>, for which the code starts the new name with
  \<open>'a'\<close> and appends one \<open>'a'\<close> for each \<open>z\<close>. The successor of \<open>n\<close> letters \<open>z\<close> is the
  string of \<open>n + 1\<close> letters \<open>a\<close>.
\<close>

theorem increment_str_all_z:
  "increment_str (replicate n CHR ''z'') = replicate (Suc n) CHR ''a''"
proof -
  have "rstrip (replicate n CHR ''z'') ''z'' = []"
    by (simp add: rstrip_def)
  then show ?thesis by (simp add: increment_str_def)
qed

text \<open>
  Claim C3, as stated, fails at its own input: \<open>_increment_str("zzz")\<close> returns the
  string \<open>aaaa\<close>, of four characters.
\<close>

theorem increment_str_zzz_returns: "increment_str ''zzz'' = ''aaaa''"
  by code_simp

text \<open>
  Claim C5. For every string \<open>s\<close> of three lowercase letters other than \<open>zzz\<close>,
  \<open>_increment_str(s)\<close> differs from \<open>s\<close> and is greater in the lexicographic order;
  and it maps \<open>aaa\<close> to \<open>aab\<close>, \<open>aaz\<close> to \<open>aba\<close> and \<open>azz\<close> to \<open>baa\<close>.
\<close>

theorem increment_str_successor:
  "(length s = 3 \<and> (\<forall>c\<in>set s. CHR ''a'' \<le> c \<and> c \<le> CHR ''z'') \<and> s \<noteq> ''zzz''
      \<longrightarrow> increment_str s \<noteq> s \<and> s < increment_str s)
   \<and> increment_str ''aaa'' = ''aab''
   \<and> increment_str ''aaz'' = ''aba''
   \<and> increment_str ''azz'' = ''baa''"
proof (intro conjI impI)
  assume a: "length s = 3 \<and> (\<forall>c\<in>set s. CHR ''a'' \<le> c \<and> c \<le> CHR ''z'') \<and> s \<noteq> ''zzz''"
  have "rstrip s ''z'' \<noteq> []"
  proof
    assume "rstrip s ''z'' = []"
    then have "s = replicate (length s) CHR ''z''" by (rule rstrip_z_Nil)
    with a show False by (simp add: numeral_3_eq_3)
  qed
  with a have lt: "s < increment_str s" by (intro increment_str_less) auto
  then show "s < increment_str s" .
  from lt show "increment_str s \<noteq> s" by auto
next
  show "increment_str ''aaa'' = ''aab''" by code_simp
  show "increment_str ''aaz'' = ''aba''" by code_simp
  show "increment_str ''azz'' = ''baa''" by code_simp
qed

theorem increment_str_successor_witness:
  "length ''abz'' = 3 \<and> list_all (\<lambda>c. CHR ''a'' \<le> c \<and> c \<le> CHR ''z'') ''abz'' \<and> ''abz'' \<noteq> ''zzz''
   \<and> increment_str ''abz'' \<noteq> ''abz'' \<and> ''abz'' < increment_str ''abz''"
  using increment_str_successor [of "''abz''"] by simp

section \<open>Sequencing, replies and the requests sent\<close>

lemma bind_None [simp]: "bind None f = None"
  by (simp add: bind_def)

lemma bind_Inr [simp]: "bind (Some (Inr x)) f = f x"
  by (simp add: bind_def)

lemma bind_Inl [simp]: "bind (Some (Inl e)) f = Some (Inl e)"
  by (simp add: bind_def)

lemma bind_returns: "bind m f = Some (Inr y) \<Longrightarrow> \<exists>x. m = Some (Inr x) \<and> f x = Some (Inr y)"
  by (auto simp: bind_def split: option.splits sum.splits)

lemma raise_or_returns: "raise_or v f = Some (Inr y) \<Longrightarrow> \<exists>x. v = Inr x \<and> f x = Some (Inr y)"
  by (auto simp: raise_or_def split: sum.splits)

lemma writes_append: "writes (xs @ ys) = writes xs @ writes ys"
  by (induction xs rule: writes.induct) auto

lemma get_list_returns:
  "get_list E oid s = Some (Inr (js, s1)) \<Longrightarrow>
     list_request E (remote s) oid = Some js \<and> s1 = s\<lparr>requests := requests s @ [Get_list oid]\<rparr>"
  by (auto simp: get_list_def Let_def split: option.splits)

lemma get_props_returns:
  "get_props E oid s = Some (Inr (d, s1)) \<Longrightarrow>
     props_request E (remote s) oid = Some d \<and> s1 = s\<lparr>requests := requests s @ [Get_props oid]\<rparr>"
  by (auto simp: get_props_def Let_def split: option.splits)

lemma post_write_returns:
  "post_write E body s = Some (Inr (reply, s1)) \<Longrightarrow>
     \<exists>r'. write_request E (remote s) body = Some (reply, r')
       \<and> s1 = s\<lparr>remote := r', requests := requests s @ [Post_write body]\<rparr>"
  by (auto simp: post_write_def split: option.splits)

lemma outcome_returns:
  assumes "outcome r = Some (Inr v)"
  shows "\<exists>s. r = Some (Inr (v, s))"
proof (cases r)
  case None
  with assms show ?thesis by (simp add: outcome_def)
next
  case (Some x)
  with assms show ?thesis by (cases x) (auto simp: outcome_def)
qed

section \<open>Properties of \<open>populate_hierarchy\<close> and \<open>find_file\<close>\<close>



text \<open>A repopulation sends no write.\<close>

lemma for_entries_writes:
  assumes rec: "\<And>p oid s u s1. rec p oid s = Some (Inr (u, s1)) \<Longrightarrow> writes (requests s1) = writes (requests s)"
  shows "for_entries rec path js s = Some (Inr (u, s1)) \<Longrightarrow> writes (requests s1) = writes (requests s)"
proof (induction js arbitrary: s)
  case Nil
  then show ?case by simp
next
  case (Cons j js)
  let ?s1 = "s\<lparr>hierarchy := (hierarchy s)(StrKey (path @ ''/'' @ e_name j) \<mapsto> e_oid j)\<rparr>"
  show ?case
  proof (cases "e_isfile j")
    case (Some v)
    with Cons.prems have "for_entries rec path js ?s1 = Some (Inr (u, s1))"
      by (simp add: Let_def)
    from Cons.IH [OF this] show ?thesis by simp
  next
    case None
    with Cons.prems have "bind (rec (path @ ''/'' @ e_name j) (e_oid j) ?s1)
        (\<lambda>(_, s2). for_entries rec path js s2) = Some (Inr (u, s1))"
      by (simp add: Let_def)
    then obtain u2 s2 where r: "rec (path @ ''/'' @ e_name j) (e_oid j) ?s1 = Some (Inr (u2, s2))"
      and f: "for_entries rec path js s2 = Some (Inr (u, s1))"
      by (auto dest!: bind_returns)
    from rec [OF r] Cons.IH [OF f] show ?thesis by simp
  qed
qed

lemma populate_hierarchy_writes:
  "populate_hierarchy E n path oid s = Some (Inr (u, s1)) \<Longrightarrow> writes (requests s1) = writes (requests s)"
proof (induction n arbitrary: path oid s u s1)
  case 0
  then show ?case by simp
next
  case (Suc n)
  from Suc.prems obtain js s0 where g: "get_list E oid s = Some (Inr (js, s0))"
    and f: "for_entries (populate_hierarchy E n) (if path = ''/'' then [] else path) js s0 = Some (Inr (u, s1))"
    by (auto dest!: bind_returns)
  have "writes (requests s1) = writes (requests s0)"
    by (rule for_entries_writes [OF _ f]) (rule Suc.IH)
  with get_list_returns [OF g] show ?case by (simp add: writes_append)
qed

lemma find_file_writes:
  "find_file E n f s = Some (Inr (oid, s1)) \<Longrightarrow> writes (requests s1) = writes (requests s)"
  by (auto simp: find_file_def split: option.splits dest!: bind_returns populate_hierarchy_writes)



section \<open>Properties of \<open>make_directory_tree\<close>\<close>

text \<open>On a store whose root lists nothing, a repopulation leaves the hierarchy as it is.\<close>

lemma populate_hierarchy_empty_root:
  assumes "list_request E (remote s) (JNum 1) = Some []"
  shows "populate_hierarchy E (Suc n) ''/'' (JNum 1) s
           = Some (Inr ((), s\<lparr>requests := requests s @ [Get_list (JNum 1)]\<rparr>))"
  using assms by (simp add: get_list_def)

lemma find_file_empty_root:
  assumes "list_request E (remote s) (JNum 1) = Some []" and "hierarchy s (StrKey f) = None"
  shows "find_file E 0 f s = None"
    and "find_file E (Suc n) f s = Some (Inr (JNull, s\<lparr>requests := requests s @ [Get_list (JNum 1)]\<rparr>))"
  using assms by (simp_all add: find_file_def get_list_def)

lemma make_directory_tree_unresolved:
  assumes "list_request E (remote s) (JNum 1) = Some []" and "\<forall>f. hierarchy s (StrKey f) = None"
  shows "make_directory_tree E n path0 object_policy security s = None"
  using assms
proof (induction n arbitrary: path0 s)
  case 0
  then show ?case by simp
next
  case (Suc n)
  let ?parent = "path_str (path_parent (Path path0))"
  show ?case
  proof (cases n)
    case 0
    with Suc.prems show ?thesis
      by (simp add: Let_def find_file_empty_root)
  next
    case (Suc m)
    let ?s1 = "s\<lparr>requests := requests s @ [Get_list (JNum 1)]\<rparr>"
    from Suc.prems have ff: "find_file E n ?parent s = Some (Inr (JNull, ?s1))"
      unfolding Suc by (intro find_file_empty_root) auto
    have "make_directory_tree E n ?parent object_policy security ?s1 = None"
      using Suc.prems by (intro Suc.IH) auto
    with ff show ?thesis by (simp add: Let_def)
  qed
qed

text \<open>
  Claim C1, at its own example. \<open>make_directory_tree("/a/b/c")\<close> on the empty tree
  does not return, whatever the number of nested calls allowed: no key of the hierarchy
  is \<open>/\<close> (\<open>populate_hierarchy\<close> writes the keys \<open>/name\<close> only), so the parent of
  \<open>/a\<close> is not found, the method calls itself for \<open>/\<close>, whose parent is \<open>/\<close> again,
  and so on. Under a directory that the hierarchy holds, the same call returns; and
  where the hierarchy holds the path and its ancestors already, the call still posts a
  write for the path.
\<close>

theorem make_directory_tree_never_returns:
  "make_directory_tree run_env n ''/a/b/c'' None None (fresh empty_tree) = None
   \<and> outcome (make_directory_tree run_env 5 ''/a/b/c'' None None cached_a) = Some (Inr (JNum 4))
   \<and> map_option (map request_line \<circ> requests)
         (final (make_directory_tree run_env 5 ''/a/b/c'' None None cached_abc))
       = Some [(''props'', JNum 3), (''props'', JNum 3), (''write'', JStr ''c'')]"
proof (intro conjI)
  have "list_request run_env (remote (fresh empty_tree)) (JNum 1) = Some []"
    by (simp add: run_env_def fresh_def empty_tree_def store_list_def root_node_def)
  moreover have "\<forall>f. hierarchy (fresh empty_tree) (StrKey f) = None"
    by (simp add: fresh_def)
  ultimately show "make_directory_tree run_env n ''/a/b/c'' None None (fresh empty_tree) = None"
    by (rule make_directory_tree_unresolved)
  show "outcome (make_directory_tree run_env 5 ''/a/b/c'' None None cached_a) = Some (Inr (JNum 4))"
    by code_simp
  show "map_option (map request_line \<circ> requests)
         (final (make_directory_tree run_env 5 ''/a/b/c'' None None cached_abc))
       = Some [(''props'', JNum 3), (''props'', JNum 3), (''write'', JStr ''c'')]"
    by code_simp
qed

text \<open>
  The one write of \<open>make_directory_tree\<close> for its own path carries the parsed policy
  of the caller, when the caller gave one.
\<close>

lemma write_directory_writes:
  assumes "write_directory E path oid (Some (PolStr t)) security s = Some (Inr (new_oid, s1))"
    and "t \<noteq> []"
  shows "\<exists>body j. writes (requests s1) = writes (requests s) @ [body]
           \<and> json_loads E t = Some j \<and> body ''objectpolicy'' = Some j
           \<and> body ''name'' = Some (JStr (path_name path))"
  using assms
  by (auto simp: write_directory_def raise_or_def Let_def writes_append get_props_def
        post_write_def item_def bind_def
      split: option.splits sum.splits list.splits if_splits prod.splits)

text \<open>
  Claim C4, as the code has it. \<open>make_directory_tree\<close> hands its \<open>object_policy\<close> to
  the call it makes for the parent. Given a non-empty policy text, every directory a
  returning call writes, the missing ancestors as well as the path itself (the last
  one written), carries the caller's policy, parsed.
\<close>

theorem make_directory_tree_policy:
  assumes "t \<noteq> []"
    and "make_directory_tree E n path0 (Some (PolStr t)) security s = Some (Inr (oid, s1))"
  shows "\<exists>ws j. writes (requests s1) = writes (requests s) @ ws \<and> ws \<noteq> []
           \<and> json_loads E t = Some j \<and> (\<forall>body\<in>set ws. body ''objectpolicy'' = Some j)
           \<and> last ws ''name'' = Some (JStr (path_name (Path path0)))"
  using assms(2)
proof (induction n arbitrary: path0 s oid s1)
  case 0
  then show ?case by simp
next
  case (Suc n)
  let ?path = "Path path0"
  let ?parent = "path_str (path_parent ?path)"
  from Suc.prems obtain oid1 sa sb oid2 sc where
    f1: "find_file E n ?parent s = Some (Inr (oid1, sa))"
    and up: "(if \<not> truthy oid1
               then bind (make_directory_tree E n ?parent (Some (PolStr t)) security sa)
                      (\<lambda>(_, s2). Some (Inr ((), s2)))
               else Some (Inr ((), sa))) = Some (Inr ((), sb))"
    and f2: "find_file E n ?parent sb = Some (Inr (oid2, sc))"
    and wd: "write_directory E ?path oid2 (Some (PolStr t)) security sc = Some (Inr (oid, s1))"
    by (auto simp: Let_def dest!: bind_returns)
  from write_directory_writes [OF wd assms(1)] obtain body j where
    w: "writes (requests s1) = writes (requests sc) @ [body]"
    and j: "json_loads E t = Some j" "body ''objectpolicy'' = Some j"
    and nm: "body ''name'' = Some (JStr (path_name ?path))"
    by auto
  have "\<exists>ws. writes (requests sb) = writes (requests sa) @ ws
          \<and> (\<forall>body\<in>set ws. body ''objectpolicy'' = Some j)"
  proof (cases "truthy oid1")
    case True
    with up show ?thesis by simp
  next
    case False
    with up obtain o' where "make_directory_tree E n ?parent (Some (PolStr t)) security sa = Some (Inr (o', sb))"
      by (auto dest!: bind_returns)
    from Suc.IH [OF this] j show ?thesis by auto
  qed
  then obtain ws where ws: "writes (requests sb) = writes (requests sa) @ ws"
    "\<forall>body\<in>set ws. body ''objectpolicy'' = Some j"
    by auto
  have "writes (requests s1) = writes (requests s) @ (ws @ [body])"
    using w ws find_file_writes [OF f1] find_file_writes [OF f2] by simp
  with ws j nm show ?case
    by (intro exI [of _ "ws @ [body]"] exI [of _ j]) auto
qed

theorem make_directory_tree_policy_witness:
  "''9'' \<noteq> []
   \<and> outcome (make_directory_tree run_env 5 ''/a/b/c'' (Some (PolStr ''9'')) None cached_a)
       = Some (Inr (JNum 4))
   \<and> (\<exists>s1 ws. final (make_directory_tree run_env 5 ''/a/b/c'' (Some (PolStr ''9'')) None cached_a)
                 = Some s1
          \<and> writes (requests s1) = writes (requests cached_a) @ ws \<and> ws \<noteq> []
          \<and> list_all (\<lambda>body. body ''objectpolicy'' = Some (JNum 9)) ws
          \<and> last ws ''name'' = Some (JStr ''c''))"
proof -
  have out: "outcome (make_directory_tree run_env 5 ''/a/b/c'' (Some (PolStr ''9'')) None cached_a)
       = Some (Inr (JNum 4))"
    by code_simp
  then obtain s1 where
    run: "make_directory_tree run_env 5 ''/a/b/c'' (Some (PolStr ''9'')) None cached_a
            = Some (Inr (JNum 4, s1))"
    by (auto dest!: outcome_returns)
  have nm: "path_name (Path ''/a/b/c'') = ''c''" by code_simp
  have ld: "json_loads run_env ''9'' = Some (JNum 9)" by code_simp
  from make_directory_tree_policy [OF _ run] ld nm obtain ws where
    "writes (requests s1) = writes (requests cached_a) @ ws" "ws \<noteq> []"
    "\<forall>body\<in>set ws. body ''objectpolicy'' = Some (JNum 9)"
    "last ws ''name'' = Some (JStr ''c'')"
    by auto
  with out run show ?thesis
    by (auto simp: final_def list_all_iff)
qed

text \<open>
  Claim C4, as stated, fails: with \<open>/a\<close> in the store under policy \<open>7\<close> and the
  policy \<open>9\<close> given for \<open>/a/b/c\<close>, the missing ancestor \<open>/a/b\<close> is written with \<open>9\<close>,
  not with the \<open>7\<close> of its parent.
\<close>

theorem make_directory_tree_leaf_policy_on_ancestor:
  "map_option (map (\<lambda>body. (body ''name'', body ''objectpolicy'')) \<circ> writes \<circ> requests)
     (final (make_directory_tree run_env 5 ''/a/b/c'' (Some (PolStr ''9'')) None cached_a))
     = Some [(Some (JStr ''b''), Some (JNum 9)), (Some (JStr ''c''), Some (JNum 9))]
   \<and> map_option (\<lambda>props. props ''objectpolicy'') (store_props tree_a (JNum 2)) = Some (Some (JNum 7))"
  by code_simp

text \<open>
  Claim C10, at a run. \<open>make_directory_tree("/a/b")\<close> stores the new oid under the
  \<open>Path\<close> object it made of its argument, not under the \<open>str\<close>: after it the
  hierarchy has no \<open>str\<close> key \<open>/a/b\<close>, and once \<open>find_file("/a/b")\<close> has repopulated
  it, the hierarchy holds the path twice, under a \<open>str\<close> key and under a \<open>Path\<close> key.
\<close>

theorem make_directory_tree_records_path_key:
  "map_option (\<lambda>s. map (hierarchy s) [StrKey ''/a/b'', PathKey ''/a/b''])
     (final (make_directory_tree run_env 5 ''/a/b'' None None cached_a))
     = Some [None, Some (JNum 3)]
   \<and> map_option (\<lambda>s. map (hierarchy s) [StrKey ''/a/b'', PathKey ''/a/b''])
       (final (bind (make_directory_tree run_env 5 ''/a/b'' None None cached_a)
                 (\<lambda>(_, s). find_file run_env 5 ''/a/b'' s)))
     = Some [Some (JNum 3), Some (JNum 3)]"
  by code_simp

section \<open>Properties of \<open>create_meta\<close>\<close>

text \<open>What a returned record holds, branch by branch.\<close>

lemma meta_of_existing_returns:
  assumes "meta_of_existing E oid object_policy kw s = Some (Inr (meta, s1))"
  shows "\<exists>props. props_request E (remote s) oid = Some props
           \<and> meta ''action'' = Some (JStr ''C'')
           \<and> meta ''mimetype'' = props ''mimetype''
           \<and> (if truthy_policy object_policy then meta ''objectpolicy'' \<noteq> None
               else meta ''objectpolicy'' = props ''objectpolicy'')"
  using assms
  by (auto simp: meta_of_existing_def raise_or_def Let_def get_props_def bind_def
      split: option.splits sum.splits if_splits prod.splits policy_arg.splits)

lemma meta_of_new_returns:
  assumes "meta_of_new E n data_filename mimetype object_policy kw s = Some (Inr (meta, s1))"
  shows "meta ''action'' = Some (JStr ''C'') \<and> meta ''objectpolicy'' \<noteq> None
           \<and> (\<exists>v. first_of mimetype = Inr v \<and> meta ''mimetype'' = Some v)"
  using assms
  by (auto simp: meta_of_new_def raise_or_def Let_def
      split: option.splits sum.splits if_splits prod.splits dest!: bind_returns)

lemma record_fields_returns:
  assumes "record_fields ks r = Some (Inr vs)"
  shows "\<exists>m s. r = Some (Inr (m, s)) \<and> map m ks = vs"
proof (cases r)
  case None
  with assms show ?thesis by (simp add: record_fields_def)
next
  case (Some x)
  with assms show ?thesis by (cases x) (auto simp: record_fields_def)
qed

text \<open>
  Claim C2, against the code. Every record \<open>create_meta\<close> returns has the action
  \<open>"C"\<close>: the branch taken when the file is found sets \<open>meta['action'] = "C"\<close> as
  the branch for a new file does, and no branch sets \<open>"U"\<close>.
\<close>

theorem create_meta_action:
  assumes "create_meta E n data_filename object_policy kw s = Some (Inr (meta, s1))"
  shows "meta ''action'' = Some (JStr ''C'')"
  using assms
  by (auto simp: create_meta_def Let_def split: if_splits
      dest!: bind_returns meta_of_existing_returns meta_of_new_returns)

text \<open>For the file \<open>/d/aab\<close>, which the hierarchy holds, the record returned has action \<open>"C"\<close>.\<close>

theorem create_meta_action_witness:
  "hierarchy cached_parts (StrKey ''/d/aab'') = Some (JNum 4)
   \<and> (\<exists>meta s1. create_meta run_env 3 ''/d/aab'' None no_kwargs cached_parts = Some (Inr (meta, s1))
         \<and> meta ''action'' = Some (JStr ''C''))"
proof -
  have "record_fields [''name''] (create_meta run_env 3 ''/d/aab'' None no_kwargs cached_parts)
          = Some (Inr [Some (JStr ''aab'')])"
    by code_simp
  then obtain meta s1 where
    run: "create_meta run_env 3 ''/d/aab'' None no_kwargs cached_parts = Some (Inr (meta, s1))"
    by (auto dest!: record_fields_returns)
  from create_meta_action [OF run] run show ?thesis
    by (auto simp: cached_parts_def)
qed




section \<open>Properties of \<open>get_part\<close>\<close>

lemma part_after_base_name:
  "part_after js =
     (let names = sort (map e_name (filter (\<lambda>j. e_isfile j \<noteq> None) js))
      in if names = [] then ''aaa'' else increment_str (base_name (last names)))"
  by (simp add: part_after_def base_name_def Let_def)

lemma next_part_outcome:
  "list_request E (remote s) oid = Some js \<Longrightarrow> outcome (next_part E oid s) = Some (Inr (part_after js))"
  by (simp add: next_part_def get_list_def outcome_def)

text \<open>
  Claim C7, as the code has it. For a name the hierarchy holds with the oid of a
  directory (the reply of \<open>/props\<close> has no \<open>isfile\<close>), and for a name found only after a
  repopulation, \<open>get_part\<close> lists that oid, keeps the names of the entries that have
  \<open>isfile\<close>, sorts the names as they are, and returns the successor of the last of them
  cut at its first dot, or \<open>aaa\<close> when no entry has \<open>isfile\<close>. The parts \<open>aaa\<close> and
  \<open>aab\<close> give \<open>aac\<close>, and a directory without files gives \<open>aaa\<close>.
\<close>

theorem get_part_directory:
  "(hierarchy s (StrKey f) = Some oid \<and> props_request E (remote s) oid = Some props
      \<and> props ''isfile'' = None \<and> list_request E (remote s) oid = Some js
    \<longrightarrow> outcome (get_part E n f object_policy s)
          = Some (Inr (let names = sort (map e_name (filter (\<lambda>j. e_isfile j \<noteq> None) js))
                       in if names = [] then ''aaa'' else increment_str (base_name (last names)))))
   \<and> (hierarchy s (StrKey f) = None \<and> find_file E n f s = Some (Inr (oid, s1)) \<and> truthy oid
        \<and> list_request E (remote s1) oid = Some js
      \<longrightarrow> outcome (get_part E n f object_policy s)
            = Some (Inr (let names = sort (map e_name (filter (\<lambda>j. e_isfile j \<noteq> None) js))
                         in if names = [] then ''aaa'' else increment_str (base_name (last names)))))
   \<and> part_after [\<lparr>e_name = ''aab'', e_oid = JNum 4, e_isfile = Some (JBool True)\<rparr>,
                  \<lparr>e_name = ''sub'', e_oid = JNum 5, e_isfile = None\<rparr>,
                  \<lparr>e_name = ''aaa'', e_oid = JNum 3, e_isfile = Some (JBool True)\<rparr>] = ''aac''
   \<and> part_after [\<lparr>e_name = ''sub'', e_oid = JNum 5, e_isfile = None\<rparr>] = ''aaa''"
proof (intro conjI impI)
  assume a: "hierarchy s (StrKey f) = Some oid \<and> props_request E (remote s) oid = Some props
      \<and> props ''isfile'' = None \<and> list_request E (remote s) oid = Some js"
  then have "get_part E n f object_policy s
      = next_part E oid (s\<lparr>requests := requests s @ [Get_props oid]\<rparr>)"
    by (simp add: get_part_def get_props_def)
  moreover have "outcome (next_part E oid (s\<lparr>requests := requests s @ [Get_props oid]\<rparr>))
      = Some (Inr (part_after js))"
    using a by (intro next_part_outcome) simp
  ultimately show "outcome (get_part E n f object_policy s)
          = Some (Inr (let names = sort (map e_name (filter (\<lambda>j. e_isfile j \<noteq> None) js))
                       in if names = [] then ''aaa'' else increment_str (base_name (last names))))"
    by (simp add: part_after_base_name)
next
  assume a: "hierarchy s (StrKey f) = None \<and> find_file E n f s = Some (Inr (oid, s1)) \<and> truthy oid
        \<and> list_request E (remote s1) oid = Some js"
  then have "get_part E n f object_policy s = next_part E oid s1"
    by (simp add: get_part_def)
  moreover have "outcome (next_part E oid s1) = Some (Inr (part_after js))"
    using a by (intro next_part_outcome) simp
  ultimately show "outcome (get_part E n f object_policy s)
          = Some (Inr (let names = sort (map e_name (filter (\<lambda>j. e_isfile j \<noteq> None) js))
                       in if names = [] then ''aaa'' else increment_str (base_name (last names))))"
    by (simp add: part_after_base_name)
next
  show "part_after [\<lparr>e_name = ''aab'', e_oid = JNum 4, e_isfile = Some (JBool True)\<rparr>,
                  \<lparr>e_name = ''sub'', e_oid = JNum 5, e_isfile = None\<rparr>,
                  \<lparr>e_name = ''aaa'', e_oid = JNum 3, e_isfile = Some (JBool True)\<rparr>] = ''aac''"
    by code_simp
  show "part_after [\<lparr>e_name = ''sub'', e_oid = JNum 5, e_isfile = None\<rparr>] = ''aaa''"
    by code_simp
qed

text \<open>At the directory \<open>/d\<close> holding \<open>aaa\<close> and \<open>aab\<close>, \<open>get_part\<close> returns \<open>aac\<close>.\<close>

theorem get_part_directory_witness:
  "hierarchy cached_parts (StrKey ''/d'') = Some (JNum 2)
   \<and> map_option (\<lambda>props. props ''isfile'') (props_request run_env (remote cached_parts) (JNum 2)) = Some None
   \<and> map_option (map e_name) (list_request run_env (remote cached_parts) (JNum 2)) = Some [''aaa'', ''aab'']
   \<and> outcome (get_part run_env 0 ''/d'' None cached_parts) = Some (Inr ''aac'')"
proof -
  have h: "hierarchy cached_parts (StrKey ''/d'') = Some (JNum 2)"
    by (simp add: cached_parts_def)
  have p: "props_request run_env (remote cached_parts) (JNum 2) = Some (node_props (dir_node 2 ''d'' 1))"
    by (simp add: run_env_def cached_parts_def tree_parts_def store_props_def
          root_node_def dir_node_def file_node_def)
  have d: "node_props (dir_node 2 ''d'' 1) ''isfile'' = None"
    by (simp add: node_props_def dir_node_def)
  have l: "list_request run_env (remote cached_parts) (JNum 2)
      = Some [\<lparr>e_name = ''aaa'', e_oid = JNum 3, e_isfile = Some (JBool True)\<rparr>,
              \<lparr>e_name = ''aab'', e_oid = JNum 4, e_isfile = Some (JBool True)\<rparr>]"
    by (simp add: run_env_def cached_parts_def tree_parts_def store_list_def
          root_node_def dir_node_def file_node_def)
  have v: "(let names = sort (map e_name (filter (\<lambda>j. e_isfile j \<noteq> None)
              [\<lparr>e_name = ''aaa'', e_oid = JNum 3, e_isfile = Some (JBool True)\<rparr>,
               \<lparr>e_name = ''aab'', e_oid = JNum 4, e_isfile = Some (JBool True)\<rparr>]))
            in if names = [] then ''aaa'' else increment_str (base_name (last names))) = ''aac''"
    by code_simp
  from get_part_directory [of cached_parts "''/d''" "JNum 2" run_env "node_props (dir_node 2 ''d'' 1)" _ 0 None]
    h p d l v
  have "outcome (get_part run_env 0 ''/d'' None cached_parts) = Some (Inr ''aac'')"
    by simp
  with h p d l show ?thesis by simp
qed

text \<open>
  Claim C7, as stated, fails: the names are sorted with their extensions, and only the
  last one is cut. With the files \<open>aaa.txt\<close> and \<open>aaa-x\<close> the last name in order is
  \<open>aaa.txt\<close> and \<open>get_part\<close> returns \<open>aab\<close>; of the base names \<open>aaa\<close> and \<open>aaa-x\<close>
  the greatest is \<open>aaa-x\<close>, whose successor is \<open>aaa-y\<close>.
\<close>

theorem get_part_sorts_full_names:
  "outcome (get_part run_env 0 ''/d'' None cached_dashed) = Some (Inr ''aab'')
   \<and> map_option (map e_name) (list_request run_env (remote cached_dashed) (JNum 2))
       = Some [''aaa.txt'', ''aaa-x'']
   \<and> map_option spec_part_after (list_request run_env (remote cached_dashed) (JNum 2))
       = Some ''aaa-y''"
  by code_simp

text \<open>
  Claim C8, at a run. For the file \<open>/d/aab\<close> held by the hierarchy, \<open>get_part\<close> reads
  its properties and lists its parent \<open>/d\<close>, returning \<open>aac\<close>. For the same file found
  only after a repopulation, it lists the file itself (oid \<open>4\<close>), not the parent (oid
  \<open>2\<close>), and returns \<open>aaa\<close>, the name of a part that exists.
\<close>

theorem get_part_lists_file_after_repopulation:
  "outcome (get_part run_env 3 ''/d/aab'' None (fresh tree_parts)) = Some (Inr ''aaa'')
   \<and> map_option (map request_line \<circ> requests) (final (get_part run_env 3 ''/d/aab'' None (fresh tree_parts)))
       = Some [(''list'', JNum 1), (''list'', JNum 2), (''list'', JNum 4)]
   \<and> outcome (get_part run_env 3 ''/d/aab'' None cached_parts) = Some (Inr ''aac'')
   \<and> map_option (map request_line \<circ> requests) (final (get_part run_env 3 ''/d/aab'' None cached_parts))
       = Some [(''props'', JNum 4), (''list'', JNum 2)]"
  by code_simp

end
